theory Spec2Isabelle
  imports Complex_Main
begin

section \<open>Python values, exceptions and builtins\<close>

text \<open>
  The widgets are Python 2 code on PyQt4. An exception is a value of \<open>error\<close>; a method
  that mutates its object and then raises leaves the mutation in place, so every method
  returns the outcome of the call together with the object after the call.
\<close>

datatype error = TypeError | ValueError | ZeroDivisionError

datatype outcome = Returned | Raised error

text \<open>A unicode string is the list of its code points.\<close>

type_synonym unicode = "int list"

text \<open>\<open>sys.maxunicode\<close> of a wide build; a narrow build has 65535.\<close>

definition maxunicode :: int where
  "maxunicode = 1114111"

text \<open>\<open>unichr(i)\<close>: the one-character string, ValueError outside \<open>range(maxunicode + 1)\<close>.\<close>

definition unichr :: "int \<Rightarrow> error + unicode" where
  "unichr i = (if 0 \<le> i \<and> i \<le> maxunicode then Inr [i] else Inl ValueError)"

text \<open>\<open>ord(s)\<close>: the code point of a string of length one, TypeError for any other length.\<close>

fun ord :: "unicode \<Rightarrow> error + int" where
  "ord [c] = Inr c"
| "ord s = Inl TypeError"

section \<open>widgets/charmap.py: the CharMap widget\<close>

text \<open>
  The font is a \<open>QFont\<close> and its metrics come from \<open>QFontMetrics\<close>; both belong to Qt.
  The model takes the font type as a type variable and the four Qt calls the widget makes
  on it as parameters.
\<close>

record 'f qfont_api =
  family :: "'f \<Rightarrow> string"
  setFamily :: "string \<Rightarrow> 'f \<Rightarrow> 'f"
  setPointSize :: "int \<Rightarrow> 'f \<Rightarrow> 'f"
  xHeight :: "'f \<Rightarrow> int"

text \<open>
  What the widget sends out, in the order of the calls: the two signals with their
  argument, and the requests \<open>adjustSize()\<close> and \<open>update()\<close> to its Qt base class.
\<close>

datatype effect =
    CharacterSelected unicode
  | CharacterClicked unicode
  | AdjustSize
  | Update

record 'f charmap =
  showToolTips :: bool
  selected :: int
  column_count :: int
  square :: int
  range_cm :: "int \<times> int"
  font :: 'f
  trace :: "effect list"

text \<open>\<open>__init__\<close>; the argument is the application's default font, \<open>QFont()\<close>.\<close>

definition init :: "'f \<Rightarrow> 'f charmap" where
  "init default_font =
     \<lparr>showToolTips = True, selected = -1, column_count = 32, square = 24,
      range_cm = (0, 0), font = default_font, trace = []\<rparr>"

definition setRange :: "int \<Rightarrow> int \<Rightarrow> 'f charmap \<Rightarrow> 'f charmap" where
  "setRange first last_code s =
     s\<lparr>range_cm := (first, last_code), selected := -1, trace := trace s @ [AdjustSize, Update]\<rparr>"

text \<open>The test \<open>self._range[0] <= charcode <= self._range[1]\<close>.\<close>

definition in_range :: "'f charmap \<Rightarrow> int \<Rightarrow> bool" where
  "in_range s charcode = (fst (range_cm s) \<le> charcode \<and> charcode \<le> snd (range_cm s))"

text \<open>The argument of \<open>select\<close>: an int, or a string.\<close>

datatype charcode_arg = IntArg int | StrArg unicode

text \<open>Lines 65-66: a value that is not an int goes through \<open>ord\<close>.\<close>

fun charcode_of :: "charcode_arg \<Rightarrow> error + int" where
  "charcode_of (IntArg i) = Inr i"
| "charcode_of (StrArg u) = ord u"

text \<open>
  \<open>select\<close>. The argument of \<open>emit\<close> is evaluated before the signal is sent, and after
  \<open>self._selected\<close> has been assigned: when \<open>unichr\<close> raises, the new selection stays
  and nothing is emitted.
\<close>

definition select :: "charcode_arg \<Rightarrow> 'f charmap \<Rightarrow> outcome \<times> 'f charmap" where
  "select a s =
     (case charcode_of a of
        Inl e \<Rightarrow> (Raised e, s)
      | Inr c0 \<Rightarrow>
          (let charcode = (if in_range s c0 then c0 else -1) in
           if selected s \<noteq> charcode then
             (let s1 = s\<lparr>selected := charcode\<rparr> in
              case unichr charcode of
                Inl e \<Rightarrow> (Raised e, s1)
              | Inr u \<Rightarrow> (Returned, s1\<lparr>trace := trace s1 @ [CharacterSelected u, Update]\<rparr>))
           else (Returned, s)))"

text \<open>\<open>character\<close>: the selected character, or None.\<close>

definition character :: "'f charmap \<Rightarrow> error + unicode option" where
  "character s =
     (if selected s \<noteq> -1 then
        (case unichr (selected s) of Inl e \<Rightarrow> Inl e | Inr u \<Rightarrow> Inr (Some u))
      else Inr None)"

definition setDisplayFont :: "'f qfont_api \<Rightarrow> 'f \<Rightarrow> 'f charmap \<Rightarrow> 'f charmap" where
  "setDisplayFont qt fnt s =
     s\<lparr>font := setFamily qt (family qt fnt) (font s), trace := trace s @ [Update]\<rparr>"

definition setDisplayFontSize :: "'f qfont_api \<Rightarrow> int \<Rightarrow> 'f charmap \<Rightarrow> 'f charmap" where
  "setDisplayFontSize qt size_arg s =
     (let f = setPointSize qt size_arg (font s) in
      s\<lparr>font := f, square := max 24 (xHeight qt f * 3),
        trace := trace s @ [AdjustSize, Update]\<rparr>)"

definition setColumnCount :: "int \<Rightarrow> 'f charmap \<Rightarrow> 'f charmap" where
  "setColumnCount count s =
     s\<lparr>column_count := max 1 count, trace := trace s @ [AdjustSize, Update]\<rparr>"

definition setShowToolTips :: "bool \<Rightarrow> 'f charmap \<Rightarrow> 'f charmap" where
  "setShowToolTips enabled s = s\<lparr>showToolTips := enabled\<rparr>"

text \<open>
  \<open>charcodeRect\<close>: the box \<open>QRect(x, y, width, height)\<close> of a code point, None outside the
  range. \<open>divmod\<close> by zero raises.
\<close>

definition charcodeRect :: "'f charmap \<Rightarrow> int \<Rightarrow> error + (int \<times> int \<times> int \<times> int) option" where
  "charcodeRect s charcode =
     (if in_range s charcode then
        (if column_count s = 0 then Inl ZeroDivisionError
         else
           (let row = (charcode - fst (range_cm s)) div column_count s;
                col = (charcode - fst (range_cm s)) mod column_count s;
                sq = square s
            in Inr (Some (col * sq, row * sq, sq, sq))))
      else Inr None)"

text \<open>
  \<open>charcodeAt\<close>. A position is \<open>(x, y)\<close>. Python's \<open>//\<close> on ints is floor division, as
  \<open>div\<close> on \<open>int\<close> is, and raises on a zero divisor.
\<close>

definition charcodeAt :: "'f charmap \<Rightarrow> int \<times> int \<Rightarrow> error + int" where
  "charcodeAt s position =
     (if square s = 0 then Inl ZeroDivisionError
      else
        (let row = snd position div square s;
             col = fst position div square s
         in if col \<le> column_count s then
              (let charcode = fst (range_cm s) + row * column_count s + col
               in if charcode \<le> snd (range_cm s) then Inr charcode else Inr (-1))
            else Inr (-1)))"

datatype mouse_button = NoButton | LeftButton | RightButton | MidButton

record mouse_event =
  pos :: "int \<times> int"
  button :: mouse_button

text \<open>\<open>mousePressEvent\<close>: an exception of \<open>charcodeAt\<close>, \<open>select\<close> or \<open>unichr\<close> ends the call.\<close>

definition mousePressEvent :: "mouse_event \<Rightarrow> 'f charmap \<Rightarrow> outcome \<times> 'f charmap" where
  "mousePressEvent ev s =
     (case charcodeAt s (pos ev) of
        Inl e \<Rightarrow> (Raised e, s)
      | Inr charcode \<Rightarrow>
          (if charcode \<noteq> -1 then
             (case select (IntArg charcode) s of
                (Raised e, s1) \<Rightarrow> (Raised e, s1)
              | (Returned, s1) \<Rightarrow>
                  (if button ev \<noteq> RightButton then
                     (case unichr charcode of
                        Inl e \<Rightarrow> (Raised e, s1)
                      | Inr u \<Rightarrow> (Returned, s1\<lparr>trace := trace s1 @ [CharacterClicked u]\<rparr>))
                   else (Returned, s1)))
           else (Returned, s)))"

text \<open>The effects a call added to the trace, and the selection-changed signals among them.\<close>

definition new_effects :: "'f charmap \<Rightarrow> 'f charmap \<Rightarrow> effect list" where
  "new_effects s s' = drop (length (trace s)) (trace s')"

fun is_selected_signal :: "effect \<Rightarrow> bool" where
  "is_selected_signal (CharacterSelected u) = True"
| "is_selected_signal e = False"

definition selected_signals :: "'f charmap \<Rightarrow> 'f charmap \<Rightarrow> effect list" where
  "selected_signals s s' = filter is_selected_signal (new_effects s s')"

text \<open>The invariant of the data model: the selection is the sentinel or lies in the range.\<close>

definition selection_ok :: "'f charmap \<Rightarrow> bool" where
  "selection_ok s = (selected s = -1 \<or> in_range s (selected s))"

text \<open>The public operations that change the widget, as one type, and a run of them.\<close>

datatype 'f operation =
    SetRange int int
  | Select charcode_arg
  | SetColumnCount int
  | SetDisplayFont 'f
  | SetDisplayFontSize int
  | SetShowToolTips bool
  | MousePress mouse_event

fun perform :: "'f qfont_api \<Rightarrow> 'f operation \<Rightarrow> 'f charmap \<Rightarrow> outcome \<times> 'f charmap" where
  "perform qt (SetRange first last_code) s = (Returned, setRange first last_code s)"
| "perform qt (Select a) s = select a s"
| "perform qt (SetColumnCount n) s = (Returned, setColumnCount n s)"
| "perform qt (SetDisplayFont f) s = (Returned, setDisplayFont qt f s)"
| "perform qt (SetDisplayFontSize n) s = (Returned, setDisplayFontSize qt n s)"
| "perform qt (SetShowToolTips b) s = (Returned, setShowToolTips b s)"
| "perform qt (MousePress ev) s = mousePressEvent ev s"

text \<open>A caller that goes on after an exception (the Qt event loop does) sees the object as
  the failed call left it.\<close>

fun run :: "'f qfont_api \<Rightarrow> 'f operation list \<Rightarrow> 'f charmap \<Rightarrow> 'f charmap" where
  "run qt [] s = s"
| "run qt (x # xs) s = run qt xs (snd (perform qt x s))"

section \<open>svgview/view.py: processing a textedit link\<close>

text \<open>
  \<open>View.doTextEdit\<close> works on collaborators that live outside this file: the link parser
  \<open>textedit.link\<close>, the document list \<open>app.documents\<close>, \<open>scratchdir\<close>,
  \<open>util.equal_paths\<close>, \<open>app.openUrl\<close>, the text blocks of a document,
  \<open>pointandclick.positions\<close> and the main window. The model takes what they answer as
  parameters and records, in order, the calls that change something in the host.
\<close>

record textedit_link =
  filename :: string
  line :: int
  column :: int

text \<open>A document is known by its identity.\<close>

type_synonym doc = nat

text \<open>A \<open>QTextCursor(doc)\<close> and the position given to its \<open>setPosition\<close>.\<close>

record text_cursor =
  cursor_document :: doc
  cursor_position :: int

datatype call =
    OpenUrl string
  | Highlight "text_cursor list"
  | SetTextCursor text_cursor
  | BlinkCursor
  | SetCurrentDocument doc
  | ActivateWindow
  | SetFocus

record collaborators =
  link :: "string \<Rightarrow> textedit_link option"
  documents :: "doc list"
  scratch_directory :: "doc \<Rightarrow> string option"
  scratch_path :: "doc \<Rightarrow> string"
  equal_paths :: "string \<Rightarrow> string \<Rightarrow> bool"
  toLocalFile :: "doc \<Rightarrow> string"
  openUrl :: "string \<Rightarrow> doc option"
  block_position :: "doc \<Rightarrow> int \<Rightarrow> int"
  positions :: "text_cursor \<Rightarrow> text_cursor list"
  currentDocument :: "doc option"

text \<open>Truth value of \<open>s.directory()\<close>: a string that is not empty.\<close>

fun truthy :: "string option \<Rightarrow> bool" where
  "truthy None = False"
| "truthy (Some d) = (d \<noteq> [])"

text \<open>The loop of \<open>View.document\<close> over \<open>app.documents\<close>: the first document that matches.\<close>

fun find_document :: "collaborators \<Rightarrow> string \<Rightarrow> doc list \<Rightarrow> doc option" where
  "find_document env fname [] = None"
| "find_document env fname (d # ds) =
     (if (truthy (scratch_directory env d) \<and> equal_paths env fname (scratch_path env d))
         \<or> toLocalFile env d = fname
      then Some d else find_document env fname ds)"

text \<open>\<open>View.document(filename, load)\<close>: the document, and the calls made to find it.\<close>

definition document :: "collaborators \<Rightarrow> string \<Rightarrow> bool \<Rightarrow> doc option \<times> call list" where
  "document env fname load =
     (case find_document env fname (documents env) of
        Some d \<Rightarrow> (Some d, [])
      | None \<Rightarrow> (if load then (openUrl env fname, [OpenUrl fname]) else (None, [])))"

text \<open>\<open>View.doTextEdit(url, setCursor)\<close>: the returned value and the calls made.\<close>

definition doTextEdit :: "collaborators \<Rightarrow> string \<Rightarrow> bool \<Rightarrow> bool \<times> call list" where
  "doTextEdit env url setCursor =
     (case link env url of
        None \<Rightarrow> (False, [])
      | Some t \<Rightarrow>
          (case document env (filename t) setCursor of
             (None, cs0) \<Rightarrow> (True, cs0)
           | (Some d, cs0) \<Rightarrow>
               (let cursor = \<lparr>cursor_document = d,
                      cursor_position = block_position env d (line t - 1) + column t\<rparr>;
                    cursors = positions env cursor;
                    cs1 = (if cursors \<noteq> [] \<and> Some d = currentDocument env
                           then [Highlight cursors] else []);
                    cs2 = (if setCursor
                           then [SetTextCursor cursor, BlinkCursor, SetCurrentDocument d,
                                 ActivateWindow, SetFocus]
                           else [])
                in (True, cs0 @ cs1 @ cs2))))"

fun is_highlight :: "call \<Rightarrow> bool" where
  "is_highlight (Highlight cs) = True"
| "is_highlight c = False"

section \<open>svgview/view.py: zooming\<close>

text \<open>
  The zoom factor is kept by the Qt base class \<open>QWebView\<close>: the model takes its getter
  \<open>zoomFactor()\<close> and its setter, which \<open>View.setZoomFactor\<close> calls through \<open>super\<close>, as
  parameters, over any type of widget state.
\<close>

record 'w qwebview_api =
  zoomFactor :: "'w \<Rightarrow> real"
  base_setZoomFactor :: "real \<Rightarrow> 'w \<Rightarrow> 'w"

text \<open>
  A Python float is a double. A finite double is the real number it denotes; the product
  and the quotient of two floats, each rounded to a float again, are the parameters \<open>fmul\<close>
  and \<open>fdiv\<close>. Infinities and NaN are not modelled.
\<close>

record float_api =
  fmul :: "real \<Rightarrow> real \<Rightarrow> real"
  fdiv :: "real \<Rightarrow> real \<Rightarrow> real"

text \<open>The view: the state of its base class, and the arguments of the \<open>zoomFactorChanged\<close>
  signals it has emitted.\<close>

record 'w view =
  webview :: 'w
  zoomFactorChanged :: "real list"

text \<open>The literal \<open>1.1\<close>: the double nearest to it, \<open>0x1.199999999999ap+0\<close>.\<close>

definition ratio :: real where
  "ratio = 2476979795053773 / 2251799813685248"

definition setZoomFactor :: "'w qwebview_api \<Rightarrow> real \<Rightarrow> 'w view \<Rightarrow> 'w view" where
  "setZoomFactor qw val v =
     (let changed = (zoomFactor qw (webview v) \<noteq> val);
          w = base_setZoomFactor qw val (webview v)
      in if changed
         then v\<lparr>webview := w, zoomFactorChanged := zoomFactorChanged v @ [zoomFactor qw w]\<rparr>
         else v\<lparr>webview := w\<rparr>)"

definition zoomIn :: "float_api \<Rightarrow> 'w qwebview_api \<Rightarrow> 'w view \<Rightarrow> 'w view" where
  "zoomIn fa qw v = setZoomFactor qw (fmul fa (zoomFactor qw (webview v)) ratio) v"

text \<open>The divisor is the constant \<open>ratio\<close>, which is not zero: the division never raises.\<close>

definition zoomOut :: "float_api \<Rightarrow> 'w qwebview_api \<Rightarrow> 'w view \<Rightarrow> 'w view" where
  "zoomOut fa qw v = setZoomFactor qw (fdiv fa (zoomFactor qw (webview v)) ratio) v"


section \<open>Example objects\<close>

text \<open>A font as family and point size, with metrics that depend on both.\<close>

definition toy_qt :: "(string \<times> int) qfont_api" where
  "toy_qt =
     \<lparr>family = fst,
      setFamily = (\<lambda>n f. (n, snd f)),
      setPointSize = (\<lambda>n f. if n \<le> 0 then f else (fst f, n)),
      xHeight = (\<lambda>f. if fst f = ''Serif'' then snd f else snd f div 2)\<rparr>"

text \<open>A new widget showing A to Z.\<close>

definition letters :: "(string \<times> int) charmap" where
  "letters = setRange 65 90 (init (''Sans'', 10))"

text \<open>The same after \<open>select(66)\<close>.\<close>

definition letters_B :: "(string \<times> int) charmap" where
  "letters_B = snd (select (IntArg 66) letters)"

text \<open>A widget showing the code points 0 to 50, with the digit 0 selected.\<close>

definition low_codes :: "(string \<times> int) charmap" where
  "low_codes = snd (select (IntArg 48) (setRange 0 50 (init (''Sans'', 10))))"

text \<open>A new widget after \<open>setDisplayFontSize(20)\<close>.\<close>

definition sized :: "(string \<times> int) charmap" where
  "sized = setDisplayFontSize toy_qt 20 (init (''Sans'', 10))"

text \<open>Two open documents, \<open>main.ly\<close> in front, and a parser that knows one link.\<close>

definition two_docs :: collaborators where
  "two_docs =
     \<lparr>link = (\<lambda>u. if u = ''textedit://file.ly:10:4''
                 then Some \<lparr>filename = ''file.ly'', line = 10, column = 4\<rparr>
                 else if u = ''textedit://main.ly:1:0''
                 then Some \<lparr>filename = ''main.ly'', line = 1, column = 0\<rparr>
                 else None),
      documents = [0, 1],
      scratch_directory = (\<lambda>d. None),
      scratch_path = (\<lambda>d. []),
      equal_paths = (\<lambda>a b. a = b),
      toLocalFile = (\<lambda>d. if d = 0 then ''main.ly'' else ''file.ly''),
      openUrl = (\<lambda>f. None),
      block_position = (\<lambda>d n. 20 * n),
      positions = (\<lambda>c. [c]),
      currentDocument = Some 0\<rparr>"

text \<open>A base class that returns the zoom factor it was given, and a view at factor 1.\<close>

definition plain_webview :: "real qwebview_api" where
  "plain_webview = \<lparr>zoomFactor = (\<lambda>w. w), base_setZoomFactor = (\<lambda>x w. x)\<rparr>"

definition fresh_view :: "real view" where
  "fresh_view = \<lparr>webview = 1, zoomFactorChanged = []\<rparr>"

text \<open>A coarse arithmetic: every product comes out one percent too large, every quotient
  one percent too small.\<close>

definition coarse_floats :: float_api where
  "coarse_floats =
     \<lparr>fmul = (\<lambda>a b. a * b * (101 / 100)), fdiv = (\<lambda>a b. a / b * (99 / 100))\<rparr>"

section \<open>Properties of the CharMap widget\<close>

lemmas cm_defs = init_def setRange_def in_range_def select_def unichr_def maxunicode_def
  setDisplayFont_def setDisplayFontSize_def setColumnCount_def setShowToolTips_def
  charcodeRect_def charcodeAt_def mousePressEvent_def new_effects_def selected_signals_def
  selection_ok_def letters_def letters_B_def low_codes_def sized_def toy_qt_def

subsection \<open>What select does to the selection\<close>

lemma select_selected:
  "charcode_of a = Inr c \<Longrightarrow> selected (snd (select a s)) = (if in_range s c then c else -1)"
  by (auto simp: select_def Let_def split: sum.splits)

lemma select_range_cm: "range_cm (snd (select a s)) = range_cm s"
  by (auto simp: select_def Let_def split: sum.splits)

lemma select_unchanged: "selected (snd (select a s)) = selected s \<Longrightarrow> snd (select a s) = s"
  by (auto simp: select_def Let_def split: sum.splits)

lemma select_first:
  "charcode_of a = Inr c \<Longrightarrow> in_range s c \<Longrightarrow> 0 \<le> c \<Longrightarrow> c \<le> maxunicode \<Longrightarrow>
   select a s =
     (if selected s = c then (Returned, s)
      else (Returned, s\<lparr>selected := c, trace := trace s @ [CharacterSelected [c], Update]\<rparr>))"
  by (simp add: select_def unichr_def Let_def)

lemma select_again:
  "charcode_of a = Inr c \<Longrightarrow> in_range s c \<Longrightarrow>
   select a (snd (select a s)) = (Returned, snd (select a s))"
  by (auto simp: select_def Let_def in_range_def split: sum.splits)

text \<open>
  Claim C1. \<open>select\<close> takes a code point or a one-character string, and the string counts
  as the code point of its character. An argument of either kind that lies outside the
  range \<open>[first, last]\<close> leaves the selection at the sentinel \<open>-1\<close> (also when the call ends
  in an exception); and a call of \<open>select\<close>, whatever its argument, emits
  \<open>characterSelected\<close> only if the stored selection has changed.
\<close>

theorem select_out_of_range_deselects:
  "select (StrArg [c]) s = select (IntArg c) s
   \<and> (\<not> in_range s c \<longrightarrow>
        selected (snd (select (IntArg c) s)) = -1
        \<and> selected (snd (select (StrArg [c]) s)) = -1)
   \<and> (selected_signals t (snd (select b t)) \<noteq> [] \<longrightarrow>
        selected (snd (select b t)) \<noteq> selected t)"
proof (intro conjI impI)
  show "select (StrArg [c]) s = select (IntArg c) s"
    by (simp add: select_def)
next
  assume "\<not> in_range s c"
  then show "selected (snd (select (IntArg c) s)) = -1"
    by (simp add: select_selected)
next
  assume "\<not> in_range s c"
  then show "selected (snd (select (StrArg [c]) s)) = -1"
    by (simp add: select_selected)
next
  assume emitted: "selected_signals t (snd (select b t)) \<noteq> []"
  show "selected (snd (select b t)) \<noteq> selected t"
  proof
    assume "selected (snd (select b t)) = selected t"
    then have "snd (select b t) = t"
      by (rule select_unchanged)
    with emitted show False
      by (simp add: selected_signals_def new_effects_def)
  qed
qed

theorem select_out_of_range_deselects_witness:
  "selected low_codes = 48 \<and> \<not> in_range low_codes 97
   \<and> selected (snd (select (IntArg 97) low_codes)) = -1
   \<and> selected (snd (select (StrArg [97]) low_codes)) = -1
   \<and> select (StrArg [97]) low_codes = (Raised ValueError, low_codes\<lparr>selected := -1\<rparr>)
   \<and> selected_signals letters (snd (select (StrArg [66]) letters)) = [CharacterSelected [66]]
   \<and> selected (snd (select (StrArg [66]) letters)) \<noteq> selected letters"
  using select_out_of_range_deselects
    [where c = 97 and s = low_codes and b = "StrArg [66]" and t = letters]
  by (simp add: cm_defs)

subsection \<open>The selection stays in the range\<close>

lemma select_selection_ok: "selection_ok s \<Longrightarrow> selection_ok (snd (select a s))"
  by (auto simp: select_def selection_ok_def in_range_def Let_def split: sum.splits)

lemma mousePressEvent_selection_ok:
  assumes "selection_ok s"
  shows "selection_ok (snd (mousePressEvent ev s))"
proof (cases "charcodeAt s (pos ev)")
  case (Inl e)
  then show ?thesis
    using assms by (simp add: mousePressEvent_def)
next
  case (Inr c)
  obtain r s1 where sel: "select (IntArg c) s = (r, s1)"
    by (cases "select (IntArg c) s")
  have "selection_ok s1"
    using select_selection_ok [OF assms, of "IntArg c"] sel by simp
  then show ?thesis
    using assms Inr sel
    by (auto simp: mousePressEvent_def selection_ok_def in_range_def
        split: outcome.splits sum.splits)
qed

lemma perform_selection_ok:
  "selection_ok s \<Longrightarrow> selection_ok (snd (perform qt x s))"
  by (cases x)
    (simp_all add: select_selection_ok mousePressEvent_selection_ok,
     simp_all add: selection_ok_def in_range_def setRange_def setColumnCount_def
       setDisplayFont_def setDisplayFontSize_def setShowToolTips_def Let_def)

lemma run_selection_ok: "selection_ok s \<Longrightarrow> selection_ok (run qt xs s)"
  by (induction xs arbitrary: s) (simp_all add: perform_selection_ok)

lemma init_selection_ok: "selection_ok (init f)"
  by (simp add: selection_ok_def init_def)

text \<open>
  Claim C2. The selected code point is the sentinel \<open>-1\<close> or lies in the range
  \<open>[first, last]\<close>. Each public operation (\<open>setRange\<close>, \<open>select\<close>, \<open>setColumnCount\<close>,
  \<open>setDisplayFont\<close>, \<open>setDisplayFontSize\<close>, \<open>setShowToolTips\<close>, \<open>mousePressEvent\<close>) keeps
  this, whether it returns or raises; \<open>setRange\<close> resets the selection to \<open>-1\<close>; and so it
  holds after every run of operations on a new widget.
\<close>

theorem selection_invariant_preserved:
  "(selection_ok s \<longrightarrow> selection_ok (snd (perform qt x s)))
   \<and> selected (setRange first last_code s) = -1
   \<and> selection_ok (run qt xs (init f))"
  by (simp add: perform_selection_ok run_selection_ok init_selection_ok)
    (simp add: setRange_def)

theorem selection_invariant_preserved_witness:
  "selection_ok letters_B
   \<and> selection_ok (snd (perform toy_qt (MousePress \<lparr>pos = (48, 0), button = LeftButton\<rparr>) letters_B))
   \<and> selected (snd (perform toy_qt (MousePress \<lparr>pos = (48, 0), button = LeftButton\<rparr>) letters_B)) = 67"
  using selection_invariant_preserved
    [where s = letters_B and qt = toy_qt
       and x = "MousePress \<lparr>pos = (48, 0), button = LeftButton\<rparr>"]
  by (simp add: cm_defs)

subsection \<open>The cell size\<close>

text \<open>
  Claim C3, as stated, fails for \<open>setDisplayFont\<close>: a widget at point size 20 in family
  Sans has cells of 30; after \<open>setDisplayFont\<close> to family Serif, whose x-height at that size
  is 20, the cells are still 30 and not 60.
\<close>

theorem setDisplayFont_square_stale:
  "square (setDisplayFont toy_qt (''Serif'', 12) sized)
   \<noteq> max 24 (3 * xHeight toy_qt (font (setDisplayFont toy_qt (''Serif'', 12) sized)))"
  by (simp add: cm_defs)

text \<open>
  Claim C3, amended. After \<open>setDisplayFontSize\<close> the cell size is the maximum of 24 and
  three times the x-height of the display font as it is then; \<open>setDisplayFont\<close> changes the
  family only and leaves the cell size as it was.
\<close>

theorem square_after_font_setters:
  "square (setDisplayFontSize qt n s)
     = max 24 (3 * xHeight qt (font (setDisplayFontSize qt n s)))
   \<and> square (setDisplayFont qt f s) = square s
   \<and> font (setDisplayFont qt f s) = setFamily qt (family qt f) (font s)"
  by (simp add: setDisplayFontSize_def setDisplayFont_def Let_def mult.commute)

subsection \<open>Exceptions of select\<close>

text \<open>
  Claim C4 says that \<open>select\<close> never raises. With B selected in the range A to Z,
  \<open>select(0)\<close> stores \<open>-1\<close> and then raises ValueError, from \<open>unichr(-1)\<close>, before the
  signal is sent. The getter \<open>character\<close> tests for \<open>-1\<close> before it calls \<open>unichr\<close>, and
  returns None on the widget that \<open>select\<close> left.
\<close>

theorem select_raises_on_deselect:
  "selected letters_B = 66
   \<and> select (IntArg 0) letters_B = (Raised ValueError, letters_B\<lparr>selected := -1\<rparr>)
   \<and> character (snd (select (IntArg 0) letters_B)) = Inr None"
  by (simp add: cm_defs character_def)

subsection \<open>From a position to a code point\<close>

lemma charcodeAt_past_last_column:
  "square s \<noteq> 0 \<Longrightarrow> fst p div square s = column_count s \<Longrightarrow>
   fst (range_cm s) + (snd p div square s) * column_count s + column_count s
     \<le> snd (range_cm s) \<Longrightarrow>
   charcodeAt s p
     = Inr (fst (range_cm s) + (snd p div square s) * column_count s + column_count s)"
  by (simp add: charcodeAt_def Let_def)

text \<open>
  Claim C5 says that \<open>charcodeAt\<close> answers \<open>-1\<close> exactly for the positions that are not
  in a cell of the grid holding a code point of the range. With four columns of 24 pixels
  the grid ends at x = 95; at position (96, 0), right of the grid, \<open>charcodeAt\<close> answers 69,
  the code point whose cell \<open>charcodeRect\<close> puts at the start of the next row.
\<close>

theorem charcodeAt_column_past_grid:
  "charcodeAt (setColumnCount 4 letters) (96, 0) = Inr 69
   \<and> charcodeRect (setColumnCount 4 letters) 69 = Inr (Some (0, 24, 24, 24))"
  by (simp add: cm_defs)

subsection \<open>Selecting twice\<close>

text \<open>
  Claim C6, as stated, fails when the code point is the selection already: with B selected,
  two calls of \<open>select(66)\<close> emit no signal at all, not one.
\<close>

theorem select_twice_already_selected:
  "in_range letters_B 66
   \<and> length (selected_signals letters_B (snd (select (IntArg 66) letters_B))
        @ selected_signals (snd (select (IntArg 66) letters_B))
            (snd (select (IntArg 66) (snd (select (IntArg 66) letters_B))))) \<noteq> 1"
  by (simp add: cm_defs)

text \<open>
  Claim C6, amended. For a Unicode code point \<open>c\<close> in the range, the first of two calls
  \<open>select(c)\<close> emits \<open>characterSelected\<close> once if \<open>c\<close> was not the selection and not at all
  if it was; the second call returns, emits nothing and leaves the widget as the first call
  left it.
\<close>

theorem select_twice_signals:
  "charcode_of a = Inr c \<Longrightarrow> in_range s c \<Longrightarrow> 0 \<le> c \<Longrightarrow> c \<le> maxunicode \<Longrightarrow>
   selected_signals s (snd (select a s))
     = (if selected s = c then [] else [CharacterSelected [c]])
   \<and> select a (snd (select a s)) = (Returned, snd (select a s))
   \<and> selected_signals (snd (select a s)) (snd (select a (snd (select a s)))) = []"
  by (simp add: select_again) (simp add: select_first selected_signals_def new_effects_def)

theorem select_twice_signals_witness:
  "charcode_of (StrArg [67]) = Inr 67 \<and> in_range letters_B 67
   \<and> (0::int) \<le> 67 \<and> 67 \<le> maxunicode
   \<and> selected_signals letters_B (snd (select (StrArg [67]) letters_B))
       = [CharacterSelected [67]]
   \<and> selected_signals (snd (select (StrArg [67]) letters_B))
       (snd (select (StrArg [67]) (snd (select (StrArg [67]) letters_B)))) = []"
  using select_twice_signals [where a = "StrArg [67]" and c = 67 and s = letters_B]
  by (simp add: cm_defs)

subsection \<open>The column count\<close>

lemma perform_column_count:
  "1 \<le> column_count s \<Longrightarrow> 1 \<le> column_count (snd (perform qt x s))"
  by (cases x)
    (auto simp: select_def mousePressEvent_def setRange_def setColumnCount_def
       setDisplayFont_def setDisplayFontSize_def setShowToolTips_def Let_def
       split: sum.splits prod.splits outcome.splits if_splits)

lemma run_column_count: "1 \<le> column_count s \<Longrightarrow> 1 \<le> column_count (run qt xs s)"
  by (induction xs arbitrary: s) (simp_all add: perform_column_count)

text \<open>
  Claim C8. After \<open>setColumnCount(n)\<close> the column count is \<open>max(1, n)\<close>: it is 1 for
  \<open>n\<close> zero or negative, and at least 1 always; and the column count of a widget is at least
  1 after every run of operations.
\<close>

theorem setColumnCount_clamps:
  "column_count (setColumnCount n s) = max 1 n
   \<and> (n \<le> 0 \<longrightarrow> column_count (setColumnCount n s) = 1)
   \<and> 1 \<le> column_count (setColumnCount n s)
   \<and> 1 \<le> column_count (run qt xs (init f))"
  by (simp add: setColumnCount_def run_column_count init_def)

theorem setColumnCount_clamps_witness:
  "(-3::int) \<le> 0 \<and> column_count (setColumnCount (-3) letters) = 1
   \<and> 1 \<le> column_count (run toy_qt [SetColumnCount 0, Select (IntArg 70)] (init (''Sans'', 10)))"
  using setColumnCount_clamps
    [where n = "-3" and s = letters and qt = toy_qt
       and xs = "[SetColumnCount 0, Select (IntArg 70)]" and f = "(''Sans'', 10)"]
  by simp

subsection \<open>A click on B\<close>

text \<open>
  Claim C9. In a widget with range (65, 90), 32 columns, cells of 24 and no selection, a
  mouse press at (24, 0) with a button other than the right one selects 66 and emits
  \<open>characterSelected\<close> and then \<open>characterClicked\<close>, both with the character B.
\<close>

theorem click_selects_B:
  "range_cm s = (65, 90) \<Longrightarrow> column_count s = 32 \<Longrightarrow> square s = 24 \<Longrightarrow>
   selected s = -1 \<Longrightarrow> pos ev = (24, 0) \<Longrightarrow> button ev \<noteq> RightButton \<Longrightarrow>
   mousePressEvent ev s
     = (Returned, s\<lparr>selected := 66,
          trace := trace s @ [CharacterSelected [66], Update, CharacterClicked [66]]\<rparr>)"
  by (simp add: mousePressEvent_def charcodeAt_def select_def in_range_def unichr_def
      maxunicode_def Let_def)

theorem click_selects_B_witness:
  "range_cm letters = (65, 90) \<and> column_count letters = 32 \<and> square letters = 24
   \<and> selected letters = -1
   \<and> pos \<lparr>pos = (24, 0), button = LeftButton\<rparr> = (24, 0)
   \<and> button \<lparr>pos = (24, 0), button = LeftButton\<rparr> \<noteq> RightButton
   \<and> mousePressEvent \<lparr>pos = (24, 0), button = LeftButton\<rparr> letters
       = (Returned, letters\<lparr>selected := 66,
            trace := trace letters @ [CharacterSelected [66], Update, CharacterClicked [66]]\<rparr>)"
  using click_selects_B [where s = letters and ev = "\<lparr>pos = (24, 0), button = LeftButton\<rparr>"]
  by (simp add: cm_defs)

section \<open>Properties of the SVG view\<close>

lemmas view_defs = two_docs_def doTextEdit_def document_def

lemma document_no_load: "snd (document env fname False) = []"
  by (simp add: document_def split: option.splits)

lemma doTextEdit_not_current:
  assumes "link env url = Some t"
    and "fst (document env (filename t) False) = None
         \<or> fst (document env (filename t) False) \<noteq> currentDocument env"
  shows "doTextEdit env url False = (True, [])"
proof (cases "document env (filename t) False")
  case (Pair target cs0)
  have cs0: "cs0 = []"
    using document_no_load [of env "filename t"] Pair by simp
  show ?thesis
  proof (cases target)
    case None
    with assms(1) Pair cs0 show ?thesis
      by (simp add: doTextEdit_def)
  next
    case (Some d)
    with assms(2) Pair have "Some d \<noteq> currentDocument env"
      by auto
    with assms(1) Pair cs0 Some show ?thesis
      by (simp add: doTextEdit_def Let_def)
  qed
qed

lemma doTextEdit_highlight_only_current:
  assumes "filter is_highlight (snd (doTextEdit env url sc)) \<noteq> []"
  shows "(case link env url of None \<Rightarrow> False
          | Some t \<Rightarrow> fst (document env (filename t) sc) = currentDocument env)"
proof (cases "link env url")
  case None
  with assms show ?thesis
    by (simp add: doTextEdit_def)
next
  case (Some t)
  obtain target cs0 where doc: "document env (filename t) sc = (target, cs0)"
    by (cases "document env (filename t) sc")
  have cs0: "filter is_highlight cs0 = []"
    using doc by (auto simp: document_def split: option.splits if_splits)
  show ?thesis
  proof (cases target)
    case None
    with assms Some doc cs0 show ?thesis
      by (simp add: doTextEdit_def)
  next
    case d: (Some d)
    with assms Some doc cs0 show ?thesis
      by (auto simp: doTextEdit_def Let_def split: if_splits)
  qed
qed

text \<open>
  Claim C10. For a URL that \<open>textedit.link\<close> recognises, \<open>doTextEdit(url, False)\<close>, when
  the document of the link is not open or is not the current document of the main window,
  returns True and makes no call at all on the host: no highlighting, no text cursor set,
  no document brought to front. And whenever \<open>doTextEdit\<close> highlights, with either value
  of \<open>setCursor\<close>, the document of the link is the current document.
\<close>

theorem doTextEdit_hover_other_document:
  "(link env url = Some t \<longrightarrow>
      (fst (document env (filename t) False) = None
       \<or> fst (document env (filename t) False) \<noteq> currentDocument env) \<longrightarrow>
      doTextEdit env url False = (True, []))
   \<and> (filter is_highlight (snd (doTextEdit env' url' sc)) \<noteq> [] \<longrightarrow>
        (case link env' url' of None \<Rightarrow> False
         | Some t' \<Rightarrow> fst (document env' (filename t') sc) = currentDocument env'))"
  using doTextEdit_not_current [of env url t]
    doTextEdit_highlight_only_current [of env' url' sc]
  by blast

theorem doTextEdit_hover_other_document_witness:
  "link two_docs ''textedit://file.ly:10:4''
     = Some \<lparr>filename = ''file.ly'', line = 10, column = 4\<rparr>
   \<and> fst (document two_docs ''file.ly'' False) = Some 1
   \<and> fst (document two_docs ''file.ly'' False) \<noteq> currentDocument two_docs
   \<and> doTextEdit two_docs ''textedit://file.ly:10:4'' False = (True, [])
   \<and> filter is_highlight (snd (doTextEdit two_docs ''textedit://main.ly:1:0'' False)) \<noteq> []
   \<and> fst (document two_docs ''main.ly'' False) = currentDocument two_docs"
  using doTextEdit_hover_other_document
    [where env = two_docs and url = "''textedit://file.ly:10:4''"
       and t = "\<lparr>filename = ''file.ly'', line = 10, column = 4\<rparr>"
       and env' = two_docs and url' = "''textedit://main.ly:1:0''" and sc = False]
  by (simp add: view_defs)

subsection \<open>Zooming\<close>











lemma coarse_round_trip:
  "zoomFactor plain_webview
     (webview (zoomOut coarse_floats plain_webview (zoomIn coarse_floats plain_webview fresh_view)))
   = 9999 / 10000"
  by (simp add: plain_webview_def coarse_floats_def fresh_view_def zoomIn_def zoomOut_def
      setZoomFactor_def ratio_def Let_def)




end
